theory Spec2Isabelle
  imports Complex_Main
begin

section \<open>Options pricing kernel: Black-Scholes prices, Greeks and implied volatility\<close>

text \<open>
  A shallow embedding of \<^verbatim>\<open>backend/app/models/black_scholes.py\<close>,
  \<^verbatim>\<open>backend/app/models/greeks.py\<close> and of
  \<^verbatim>\<open>VolatilityService.calculate_implied_volatility\<close> in
  \<^verbatim>\<open>backend/app/services/volatility.py\<close>.

  Numbers: a Python \<^verbatim>\<open>float\<close> is modelled as a \<^typ>\<open>real\<close>. The control flow, the
  formulas and the exceptions that exact arithmetic can raise (division by zero, the
  logarithm of a non-positive number, an invalid option type) are those of the source.
  Rounding, overflow, underflow and NaN of IEEE-754 doubles are not represented: every
  statement below is a statement about the source evaluated in exact real arithmetic.
\<close>

subsection \<open>Exceptions\<close>

text \<open>
  \<^item> \<open>InvalidOptionType\<close>: the \<^verbatim>\<open>ValueError("option_type must be 'call' or 'put'")\<close>
    raised by \<^verbatim>\<open>BlackScholesModel.price\<close>;
  \<^item> \<open>MathDomainError\<close>: the \<^verbatim>\<open>ValueError\<close> of \<^verbatim>\<open>math.log\<close> on an argument
    that is not positive;
  \<^item> \<open>ZeroDivisionError\<close>: float division by zero;
  \<^item> \<open>SolverError\<close>: any exception raised inside \<^verbatim>\<open>scipy.optimize.brentq\<close>.
\<close>

datatype error = InvalidOptionType | MathDomainError | ZeroDivisionError | SolverError

definition propagate :: "error + 'a \<Rightarrow> ('a \<Rightarrow> error + 'b) \<Rightarrow> error + 'b" where
  "propagate x f = (case x of Inl e \<Rightarrow> Inl e | Inr v \<Rightarrow> f v)"

subsection \<open>Strings: \<^verbatim>\<open>str.lower\<close>\<close>

text \<open>
  A \<^typ>\<open>string\<close> is a list of bytes. \<open>lower\<close> maps the ASCII capitals to small letters
  and leaves every other byte alone. On the comparisons the source makes
  (\<^verbatim>\<open>option_type.lower() == "call"\<close>, \<^verbatim>\<open>== "put"\<close>) this agrees with Python's
  \<^verbatim>\<open>str.lower\<close>: no character outside ASCII has one of the letters of
  \<^verbatim>\<open>call\<close> or \<^verbatim>\<open>put\<close> as its lower case.
\<close>

definition lower_char :: "char \<Rightarrow> char" where
  "lower_char c =
     (let n = (of_char c :: nat) in if 65 \<le> n \<and> n \<le> 90 then char_of (n + 32) else c)"

definition lower :: "string \<Rightarrow> string" where
  "lower s = map lower_char s"

subsection \<open>\<^verbatim>\<open>math\<close> and \<^verbatim>\<open>scipy.stats.norm\<close>\<close>

definition math_log :: "real \<Rightarrow> error + real" where
  "math_log x = (if x \<le> 0 then Inl MathDomainError else Inr (ln x))"

definition float_div :: "real \<Rightarrow> real \<Rightarrow> error + real" where
  "float_div a b = (if b = 0 then Inl ZeroDivisionError else Inr (a / b))"

text \<open>
  \<^verbatim>\<open>norm.pdf\<close> and \<^verbatim>\<open>norm.cdf\<close> are the density and the distribution function of
  the standard normal law. The distribution function is written as its Maclaurin series
  \<open>\<Phi>(x) = 1/2 + (1/\<surd>(2\<pi>)) \<Sum>\<^sub>n (-1)\<^sup>n x\<^sup>2\<^sup>n\<^sup>+\<^sup>1 / (2\<^sup>n n! (2n+1))\<close>,
  which converges for every \<open>x\<close> (lemma \<open>summable_norm_cdf_series\<close>); its derivative
  is the density (lemma \<open>DERIV_norm_cdf\<close>).
\<close>

definition norm_pdf :: "real \<Rightarrow> real" where
  "norm_pdf x = exp (- (x ^ 2) / 2) / sqrt (2 * pi)"

definition norm_cdf_series :: "real \<Rightarrow> nat \<Rightarrow> real" where
  "norm_cdf_series x n = (- 1) ^ n * x ^ (2 * n + 1) / (2 ^ n * fact n * real (2 * n + 1))"

definition norm_cdf :: "real \<Rightarrow> real" where
  "norm_cdf x = 1 / 2 + (\<Sum>n. norm_cdf_series x n) / sqrt (2 * pi)"

text \<open>
  The same series as a power series in \<open>x\<close>, with the coefficient of \<open>x\<^sup>k\<close>; it is
  used to differentiate \<open>norm_cdf\<close> term by term.
\<close>

definition cdf_coeff :: "nat \<Rightarrow> real" where
  "cdf_coeff k = (if even k then 0
     else (- 1) ^ ((k - 1) div 2) / (2 ^ ((k - 1) div 2) * fact ((k - 1) div 2) * real k))"

subsection \<open>\<^verbatim>\<open>class BlackScholesModel\<close>\<close>

record BlackScholesModel =
  bs_S :: real
  bs_K :: real
  bs_T :: real
  bs_r :: real
  bs_sigma :: real

text \<open>
  \<^verbatim>\<open>_d1\<close>: \<^verbatim>\<open>self.S / self.K\<close> raises on \<open>K = 0\<close>, then \<^verbatim>\<open>math.log\<close> raises on a
  quotient that is not positive, and last the division by \<^verbatim>\<open>self.sigma * math.sqrt(self.T)\<close>
  raises when that product is zero. \<^verbatim>\<open>math.sqrt\<close> is only reached with \<open>T > 0\<close>.
\<close>

definition bs_d1 :: "BlackScholesModel \<Rightarrow> error + real" where
  "bs_d1 m =
     (if bs_T m \<le> 0 then Inr 0
      else propagate (float_div (bs_S m) (bs_K m)) (\<lambda>q.
           propagate (math_log q) (\<lambda>l.
           float_div (l + (bs_r m + 0.5 * bs_sigma m ^ 2) * bs_T m)
                     (bs_sigma m * sqrt (bs_T m)))))"

definition bs_d2 :: "BlackScholesModel \<Rightarrow> error + real" where
  "bs_d2 m =
     (if bs_T m \<le> 0 then Inr 0
      else propagate (bs_d1 m) (\<lambda>d1. Inr (d1 - bs_sigma m * sqrt (bs_T m))))"

definition call_price :: "BlackScholesModel \<Rightarrow> error + real" where
  "call_price m =
     (if bs_T m \<le> 0 then Inr (max 0 (bs_S m - bs_K m))
      else propagate (bs_d1 m) (\<lambda>d1.
           propagate (bs_d2 m) (\<lambda>d2.
           Inr (bs_S m * norm_cdf d1 - bs_K m * exp (- bs_r m * bs_T m) * norm_cdf d2))))"

definition put_price :: "BlackScholesModel \<Rightarrow> error + real" where
  "put_price m =
     (if bs_T m \<le> 0 then Inr (max 0 (bs_K m - bs_S m))
      else propagate (bs_d1 m) (\<lambda>d1.
           propagate (bs_d2 m) (\<lambda>d2.
           Inr (bs_K m * exp (- bs_r m * bs_T m) * norm_cdf (- d2) - bs_S m * norm_cdf (- d1)))))"

definition price :: "BlackScholesModel \<Rightarrow> string \<Rightarrow> error + real" where
  "price m option_type =
     (if lower option_type = ''call'' then call_price m
      else if lower option_type = ''put'' then put_price m
      else Inl InvalidOptionType)"

definition get_d1_d2 :: "BlackScholesModel \<Rightarrow> error + real \<times> real" where
  "get_d1_d2 m = propagate (bs_d1 m) (\<lambda>d1. propagate (bs_d2 m) (\<lambda>d2. Inr (d1, d2)))"

subsection \<open>\<^verbatim>\<open>class Greeks\<close>\<close>

record Greeks =
  gk_S :: real
  gk_K :: real
  gk_T :: real
  gk_r :: real
  gk_sigma :: real
  gk_option_type :: string

text \<open>\<^verbatim>\<open>Greeks.__init__\<close> stores the option type in lower case.\<close>

definition Greeks_init :: "real \<Rightarrow> real \<Rightarrow> real \<Rightarrow> real \<Rightarrow> real \<Rightarrow> string \<Rightarrow> Greeks" where
  "Greeks_init S K T r sigma option_type =
     \<lparr>gk_S = S, gk_K = K, gk_T = T, gk_r = r, gk_sigma = sigma,
      gk_option_type = lower option_type\<rparr>"

definition greeks_d1 :: "Greeks \<Rightarrow> error + real" where
  "greeks_d1 g =
     (if gk_T g \<le> 0 then Inr 0
      else propagate (float_div (gk_S g) (gk_K g)) (\<lambda>q.
           propagate (math_log q) (\<lambda>l.
           float_div (l + (gk_r g + 0.5 * gk_sigma g ^ 2) * gk_T g)
                     (gk_sigma g * sqrt (gk_T g)))))"

definition greeks_d2 :: "Greeks \<Rightarrow> error + real" where
  "greeks_d2 g =
     (if gk_T g \<le> 0 then Inr 0
      else propagate (greeks_d1 g) (\<lambda>d1. Inr (d1 - gk_sigma g * sqrt (gk_T g))))"

definition delta :: "Greeks \<Rightarrow> error + real" where
  "delta g =
     (if gk_T g \<le> 0 then
        (if gk_option_type g = ''call''
         then Inr (if gk_S g > gk_K g then 1 else 0)
         else Inr (if gk_S g < gk_K g then - 1 else 0))
      else propagate (greeks_d1 g) (\<lambda>d1.
           if gk_option_type g = ''call'' then Inr (norm_cdf d1)
           else Inr (norm_cdf d1 - 1)))"

text \<open>
  In \<open>gamma\<close> and \<open>theta\<close> the numerator is a NumPy scalar, whose division does not
  raise. The divisors are not zero once \<^verbatim>\<open>_d1\<close> has returned with \<open>T > 0\<close>
  (lemma \<open>greeks_d1_divisors\<close> below).
\<close>

definition gamma :: "Greeks \<Rightarrow> error + real" where
  "gamma g =
     (if gk_T g \<le> 0 then Inr 0
      else propagate (greeks_d1 g) (\<lambda>d1.
           Inr (norm_pdf d1 / (gk_S g * gk_sigma g * sqrt (gk_T g)))))"

definition theta :: "Greeks \<Rightarrow> error + real" where
  "theta g =
     (if gk_T g \<le> 0 then Inr 0
      else propagate (greeks_d1 g) (\<lambda>d1.
           propagate (greeks_d2 g) (\<lambda>d2.
           let term1 = - (gk_S g * norm_pdf d1 * gk_sigma g) / (2 * sqrt (gk_T g)) in
           if gk_option_type g = ''call'' then
             (let term2 = gk_r g * gk_K g * exp (- gk_r g * gk_T g) * norm_cdf d2;
                  theta_annual = term1 - term2
              in Inr (theta_annual / 365))
           else
             (let term2 = gk_r g * gk_K g * exp (- gk_r g * gk_T g) * norm_cdf (- d2);
                  theta_annual = term1 + term2
              in Inr (theta_annual / 365)))))"

definition vega :: "Greeks \<Rightarrow> error + real" where
  "vega g =
     (if gk_T g \<le> 0 then Inr 0
      else propagate (greeks_d1 g) (\<lambda>d1.
           let vega_decimal = gk_S g * norm_pdf d1 * sqrt (gk_T g)
           in Inr (vega_decimal / 100)))"

definition rho :: "Greeks \<Rightarrow> error + real" where
  "rho g =
     (if gk_T g \<le> 0 then Inr 0
      else propagate (greeks_d2 g) (\<lambda>d2.
           if gk_option_type g = ''call'' then
             (let rho_decimal = gk_K g * gk_T g * exp (- gk_r g * gk_T g) * norm_cdf d2
              in Inr (rho_decimal / 100))
           else
             (let rho_decimal = - gk_K g * gk_T g * exp (- gk_r g * gk_T g) * norm_cdf (- d2)
              in Inr (rho_decimal / 100))))"

text \<open>
  \<^verbatim>\<open>all_greeks\<close> builds the dictionary in the order of the source; the entries are
  evaluated in that order and the first exception leaves the method.
\<close>

definition all_greeks :: "Greeks \<Rightarrow> error + (string \<times> real) list" where
  "all_greeks g =
     propagate (delta g) (\<lambda>d.
     propagate (gamma g) (\<lambda>ga.
     propagate (theta g) (\<lambda>t.
     propagate (vega g) (\<lambda>v.
     propagate (rho g) (\<lambda>rh.
     Inr [(''delta'', d), (''gamma'', ga), (''theta'', t), (''vega'', v), (''rho'', rh)])))))"

subsection \<open>\<^verbatim>\<open>VolatilityService.calculate_implied_volatility\<close>\<close>

text \<open>
  The objective function returns \<^verbatim>\<open>float('inf')\<close> when pricing raises.
\<close>

datatype objective_value = Finite real | Infinity

text \<open>
  \<^verbatim>\<open>scipy.optimize.brentq\<close> is not part of the repository. It is a parameter of the
  model: a function of the objective, the two ends of the bracket, \<^verbatim>\<open>maxiter\<close> and
  \<^verbatim>\<open>xtol\<close> (in this order) that returns a root or raises.
\<close>

type_synonym root_finder =
  "(real \<Rightarrow> objective_value) \<Rightarrow> real \<Rightarrow> real \<Rightarrow> int \<Rightarrow> real \<Rightarrow> error + real"

definition intrinsic_value :: "string \<Rightarrow> real \<Rightarrow> real \<Rightarrow> real" where
  "intrinsic_value option_type S K =
     (if option_type = ''call'' then max 0 (S - K) else max 0 (K - S))"

definition objective ::
  "real \<Rightarrow> real \<Rightarrow> real \<Rightarrow> real \<Rightarrow> real \<Rightarrow> string \<Rightarrow> real \<Rightarrow> objective_value" where
  "objective market_price S K T r option_type sigma =
     (case price \<lparr>bs_S = S, bs_K = K, bs_T = T, bs_r = r, bs_sigma = sigma\<rparr> option_type of
        Inl e \<Rightarrow> Infinity
      | Inr model_price \<Rightarrow> Finite (model_price - market_price))"

text \<open>
  The \<^verbatim>\<open>for _ in range(max_iterations)\<close> loop of the fallback, with the number of
  iterations that are left and the current \<open>sigma\<close>. \<open>Inr (Some sigma)\<close> is the
  \<^verbatim>\<open>return float(sigma)\<close> inside the loop, \<open>Inr None\<close> is the \<^verbatim>\<open>return None\<close>
  after the loop (reached by \<^verbatim>\<open>break\<close> or by exhausting the range), \<open>Inl e\<close> is an
  exception that leaves the loop.
\<close>

fun newton_raphson ::
  "real \<Rightarrow> real \<Rightarrow> real \<Rightarrow> real \<Rightarrow> real \<Rightarrow> string \<Rightarrow> real \<Rightarrow> nat \<Rightarrow> real \<Rightarrow> error + real option" where
  "newton_raphson market_price S K T r option_type tolerance 0 sigma = Inr None"
| "newton_raphson market_price S K T r option_type tolerance (Suc n) sigma =
     propagate
       (price \<lparr>bs_S = S, bs_K = K, bs_T = T, bs_r = r, bs_sigma = sigma\<rparr> option_type)
       (\<lambda>p. let price_diff = p - market_price in
          if \<bar>price_diff\<bar> < tolerance then Inr (Some sigma)
          else propagate (vega (Greeks_init S K T r sigma option_type)) (\<lambda>v.
               let vega = v * 100 in
               if vega < 1 / 10 ^ 10 then Inr None
               else newton_raphson market_price S K T r option_type tolerance n
                      (max 0.001 (min (sigma - price_diff / vega) 5.0))))"

text \<open>
  The \<^verbatim>\<open>try\<close> statement of the method: Brent's method first; when it raises, the
  Newton-Raphson loop; when that raises too, \<^verbatim>\<open>None\<close>.
\<close>

definition root_search ::
  "root_finder \<Rightarrow> real \<Rightarrow> real \<Rightarrow> real \<Rightarrow> real \<Rightarrow> real \<Rightarrow> string \<Rightarrow> real \<Rightarrow> int \<Rightarrow> real
     \<Rightarrow> error + real option" where
  "root_search brentq market_price S K T r option_type
       initial_guess max_iterations tolerance =
     (case brentq (objective market_price S K T r option_type) 0.001 5.0
             max_iterations tolerance of
        Inr implied_vol \<Rightarrow> Inr (Some implied_vol)
      | Inl e \<Rightarrow>
          (case newton_raphson market_price S K T r option_type tolerance
                  (nat max_iterations) initial_guess of
             Inr result \<Rightarrow> Inr result
           | Inl e' \<Rightarrow> Inr None))"

definition calculate_implied_volatility ::
  "root_finder \<Rightarrow> real \<Rightarrow> real \<Rightarrow> real \<Rightarrow> real \<Rightarrow> real \<Rightarrow> string \<Rightarrow> real \<Rightarrow> int \<Rightarrow> real
     \<Rightarrow> error + real option" where
  "calculate_implied_volatility brentq market_price S K T r option_type
       initial_guess max_iterations tolerance =
     (if T \<le> 0 \<or> market_price \<le> 0 then Inr None
      else if market_price < intrinsic_value option_type S K then Inr None
      else root_search brentq market_price S K T r option_type
             initial_guess max_iterations tolerance)"


subsection \<open>What \<^verbatim>\<open>brentq\<close> promises about a root it returns\<close>




definition raising :: root_finder where
  "raising f a b maxiter xtol = Inl SolverError"

subsection \<open>The Newton-Raphson iteration in the words of the specification\<close>

text \<open>
  The formulas of the specification for \<open>T > 0\<close>, as functions of \<open>sigma\<close>:
  \<open>d1\<close>, \<open>d2\<close>, the price of the given side and the vega per unit of volatility.
  They are compared with what the source computes in the section on the fallback.
\<close>

definition d1_formula :: "real \<Rightarrow> real \<Rightarrow> real \<Rightarrow> real \<Rightarrow> real \<Rightarrow> real" where
  "d1_formula S K T r sigma = (ln (S / K) + (r + 0.5 * sigma ^ 2) * T) / (sigma * sqrt T)"

definition d2_formula :: "real \<Rightarrow> real \<Rightarrow> real \<Rightarrow> real \<Rightarrow> real \<Rightarrow> real" where
  "d2_formula S K T r sigma = d1_formula S K T r sigma - sigma * sqrt T"

definition price_formula :: "real \<Rightarrow> real \<Rightarrow> real \<Rightarrow> real \<Rightarrow> string \<Rightarrow> real \<Rightarrow> real" where
  "price_formula S K T r option_type sigma =
     (if lower option_type = ''call''
      then S * norm_cdf (d1_formula S K T r sigma)
           - K * exp (- r * T) * norm_cdf (d2_formula S K T r sigma)
      else K * exp (- r * T) * norm_cdf (- d2_formula S K T r sigma)
           - S * norm_cdf (- d1_formula S K T r sigma))"

definition vega_formula :: "real \<Rightarrow> real \<Rightarrow> real \<Rightarrow> real \<Rightarrow> real \<Rightarrow> real" where
  "vega_formula S K T r sigma = S * norm_pdf (d1_formula S K T r sigma) * sqrt T"

text \<open>
  One step \<open>\<sigma>\<^sub>n\<^sub>+\<^sub>1 = \<sigma>\<^sub>n - (price(\<sigma>\<^sub>n) - market_price) / vega(\<sigma>\<^sub>n)\<close>, clamped into
  \<open>[0.001, 5.0]\<close>, and the sequence of iterates from \<open>\<sigma>\<^sub>0 = initial_guess\<close>.
\<close>

definition nr_next :: "real \<Rightarrow> real \<Rightarrow> real \<Rightarrow> real \<Rightarrow> real \<Rightarrow> string \<Rightarrow> real \<Rightarrow> real" where
  "nr_next market_price S K T r option_type sigma =
     max 0.001 (min (sigma - (price_formula S K T r option_type sigma - market_price)
                               / vega_formula S K T r sigma) 5.0)"

primrec nr_iterate ::
  "real \<Rightarrow> real \<Rightarrow> real \<Rightarrow> real \<Rightarrow> real \<Rightarrow> string \<Rightarrow> real \<Rightarrow> nat \<Rightarrow> real" where
  "nr_iterate market_price S K T r option_type initial_guess 0 = initial_guess"
| "nr_iterate market_price S K T r option_type initial_guess (Suc n) =
     nr_next market_price S K T r option_type
       (nr_iterate market_price S K T r option_type initial_guess n)"

text \<open>Convergence and vanishing vega at an iterate.\<close>

definition nr_converged ::
  "real \<Rightarrow> real \<Rightarrow> real \<Rightarrow> real \<Rightarrow> real \<Rightarrow> string \<Rightarrow> real \<Rightarrow> real \<Rightarrow> bool" where
  "nr_converged market_price S K T r option_type tolerance sigma \<longleftrightarrow>
     \<bar>price_formula S K T r option_type sigma - market_price\<bar> < tolerance"

definition nr_vega_vanishes :: "real \<Rightarrow> real \<Rightarrow> real \<Rightarrow> real \<Rightarrow> real \<Rightarrow> bool" where
  "nr_vega_vanishes S K T r sigma \<longleftrightarrow> vega_formula S K T r sigma < 1 / 10 ^ 10"

section \<open>Basic facts\<close>

lemma propagate_simps [simp]:
  "propagate (Inl e) f = Inl e" "propagate (Inr v) f = f v"
  by (simp_all add: propagate_def)

lemma lower_call: "lower ''call'' = ''call''"
  by code_simp

lemma lower_put: "lower ''put'' = ''put''"
  by code_simp

lemma bs_d1_valid:
  assumes "0 < S" "0 < K" "0 < T" "0 < sigma"
  shows "bs_d1 \<lparr>bs_S = S, bs_K = K, bs_T = T, bs_r = r, bs_sigma = sigma\<rparr> =
           Inr ((ln (S / K) + (r + 0.5 * sigma ^ 2) * T) / (sigma * sqrt T))"
  using assms by (simp add: bs_d1_def float_div_def math_log_def not_le)

lemma float_div_not_invalid: "float_div a b \<noteq> Inl InvalidOptionType"
  by (simp add: float_div_def)

lemma math_log_not_invalid: "math_log x \<noteq> Inl InvalidOptionType"
  by (simp add: math_log_def)

lemma propagate_not_invalid:
  assumes "x \<noteq> Inl InvalidOptionType" "\<And>v. f v \<noteq> Inl InvalidOptionType"
  shows "propagate x f \<noteq> Inl InvalidOptionType"
  using assms by (cases x) simp_all

lemma bs_d1_not_invalid: "bs_d1 m \<noteq> Inl InvalidOptionType"
  unfolding bs_d1_def
  by (simp add: propagate_not_invalid float_div_not_invalid math_log_not_invalid)

lemma bs_d2_not_invalid: "bs_d2 m \<noteq> Inl InvalidOptionType"
  unfolding bs_d2_def by (simp add: propagate_not_invalid bs_d1_not_invalid)

lemma call_price_not_invalid: "call_price m \<noteq> Inl InvalidOptionType"
  unfolding call_price_def
  by (simp add: propagate_not_invalid bs_d1_not_invalid bs_d2_not_invalid)

lemma put_price_not_invalid: "put_price m \<noteq> Inl InvalidOptionType"
  unfolding put_price_def
  by (simp add: propagate_not_invalid bs_d1_not_invalid bs_d2_not_invalid)

lemma bs_d1_returns:
  assumes "0 < bs_S m" "0 < bs_K m" "bs_T m \<le> 0 \<or> 0 < bs_sigma m"
  shows "\<exists>v. bs_d1 m = Inr v"
  using assms by (auto simp add: bs_d1_def float_div_def math_log_def divide_le_0_iff)

lemma bs_d2_returns:
  assumes "0 < bs_S m" "0 < bs_K m" "bs_T m \<le> 0 \<or> 0 < bs_sigma m"
  shows "\<exists>v. bs_d2 m = Inr v"
  using bs_d1_returns [OF assms] by (auto simp add: bs_d2_def)

lemma call_price_returns:
  assumes "0 < bs_S m" "0 < bs_K m" "bs_T m \<le> 0 \<or> 0 < bs_sigma m"
  shows "\<exists>v. call_price m = Inr v"
  using bs_d1_returns [OF assms] bs_d2_returns [OF assms] by (auto simp add: call_price_def)

lemma put_price_returns:
  assumes "0 < bs_S m" "0 < bs_K m" "bs_T m \<le> 0 \<or> 0 < bs_sigma m"
  shows "\<exists>v. put_price m = Inr v"
  using bs_d1_returns [OF assms] bs_d2_returns [OF assms] by (auto simp add: put_price_def)

lemma greeks_d1_not_invalid: "greeks_d1 g \<noteq> Inl InvalidOptionType"
  unfolding greeks_d1_def
  by (simp add: propagate_not_invalid float_div_not_invalid math_log_not_invalid)

lemma greeks_d2_not_invalid: "greeks_d2 g \<noteq> Inl InvalidOptionType"
  unfolding greeks_d2_def by (simp add: propagate_not_invalid greeks_d1_not_invalid)

lemma delta_not_invalid: "delta g \<noteq> Inl InvalidOptionType"
  unfolding delta_def by (simp add: propagate_not_invalid greeks_d1_not_invalid)

lemma gamma_not_invalid: "gamma g \<noteq> Inl InvalidOptionType"
  unfolding gamma_def by (simp add: propagate_not_invalid greeks_d1_not_invalid)

lemma theta_not_invalid: "theta g \<noteq> Inl InvalidOptionType"
  unfolding theta_def
  by (simp add: propagate_not_invalid greeks_d1_not_invalid greeks_d2_not_invalid Let_def)

lemma vega_not_invalid: "vega g \<noteq> Inl InvalidOptionType"
  unfolding vega_def by (simp add: propagate_not_invalid greeks_d1_not_invalid Let_def)

lemma rho_not_invalid: "rho g \<noteq> Inl InvalidOptionType"
  unfolding rho_def by (simp add: propagate_not_invalid greeks_d2_not_invalid Let_def)

lemma all_greeks_not_invalid: "all_greeks g \<noteq> Inl InvalidOptionType"
  unfolding all_greeks_def
  by (intro propagate_not_invalid delta_not_invalid gamma_not_invalid theta_not_invalid
        vega_not_invalid rho_not_invalid) simp

lemma greeks_d1_returns:
  assumes "0 < gk_S g" "0 < gk_K g" "gk_T g \<le> 0 \<or> 0 < gk_sigma g"
  shows "\<exists>v. greeks_d1 g = Inr v"
  using assms by (auto simp add: greeks_d1_def float_div_def math_log_def divide_le_0_iff)

lemma greeks_d1_divisors:
  assumes "greeks_d1 g = Inr d1" "0 < gk_T g"
  shows "gk_S g * gk_sigma g * sqrt (gk_T g) \<noteq> 0" and "2 * sqrt (gk_T g) \<noteq> 0"
proof -
  from assms have k: "gk_K g \<noteq> 0"
    by (auto simp add: greeks_d1_def float_div_def split: if_splits)
  with assms have q: "0 < gk_S g / gk_K g"
    by (auto simp add: greeks_d1_def float_div_def math_log_def not_le split: if_splits)
  with assms k have s: "gk_sigma g * sqrt (gk_T g) \<noteq> 0"
    by (auto simp add: greeks_d1_def float_div_def math_log_def split: if_splits)
  from q have "gk_S g \<noteq> 0" by auto
  with s show "gk_S g * gk_sigma g * sqrt (gk_T g) \<noteq> 0" by simp
  from assms(2) show "2 * sqrt (gk_T g) \<noteq> 0" by simp
qed

lemma not_isl_returns: "\<not> isl x \<Longrightarrow> \<exists>v. x = Inr v"
  by (cases x) simp_all

lemma all_greeks_returns:
  assumes "0 < gk_S g" "0 < gk_K g" "gk_T g \<le> 0 \<or> 0 < gk_sigma g"
  shows "\<exists>d ga t v rh. all_greeks g =
           Inr [(''delta'', d), (''gamma'', ga), (''theta'', t), (''vega'', v), (''rho'', rh)]"
proof -
  obtain d1 where d1: "greeks_d1 g = Inr d1" using greeks_d1_returns [OF assms] by blast
  have "\<not> isl (greeks_d2 g)" by (simp add: greeks_d2_def d1)
  then obtain d2 where d2: "greeks_d2 g = Inr d2" using not_isl_returns by blast
  have "\<not> isl (delta g)" by (simp add: delta_def d1)
  then obtain d where d: "delta g = Inr d" using not_isl_returns by blast
  have "\<not> isl (gamma g)" by (simp add: gamma_def d1)
  then obtain ga where ga: "gamma g = Inr ga" using not_isl_returns by blast
  have "\<not> isl (theta g)" by (simp add: theta_def d1 d2 Let_def)
  then obtain t where t: "theta g = Inr t" using not_isl_returns by blast
  have "\<not> isl (vega g)" by (simp add: vega_def d1 Let_def)
  then obtain v where v: "vega g = Inr v" using not_isl_returns by blast
  have "\<not> isl (rho g)" by (simp add: rho_def d2 Let_def)
  then obtain rh where rh: "rho g = Inr rh" using not_isl_returns by blast
  have "all_greeks g =
          Inr [(''delta'', d), (''gamma'', ga), (''theta'', t), (''vega'', v), (''rho'', rh)]"
    by (simp add: all_greeks_def d ga t v rh)
  then show ?thesis by blast
qed

subsection \<open>The standard normal law\<close>

lemma summable_norm_cdf_series: "summable (norm_cdf_series x)"
proof (rule summable_comparison_test')
  show "summable (\<lambda>n. \<bar>x\<bar> * (inverse (fact n) * (x\<^sup>2 / 2) ^ n))"
    by (intro summable_mult summable_exp)
next
  fix n :: nat
  have pw: "\<bar>x\<bar> ^ (2 * n + 1) = \<bar>x\<bar> * (x\<^sup>2) ^ n"
    by (simp add: power_mult)
  have "norm (norm_cdf_series x n) = \<bar>x\<bar> ^ (2 * n + 1) / (2 ^ n * fact n * real (2 * n + 1))"
    by (simp add: norm_cdf_series_def abs_mult power_abs del: power_Suc)
  also have "\<dots> = \<bar>x\<bar> * (inverse (fact n) * (x\<^sup>2 / 2) ^ n) / real (2 * n + 1)"
    unfolding pw by (simp add: power_divide divide_simps)
  also have "\<dots> \<le> \<bar>x\<bar> * (inverse (fact n) * (x\<^sup>2 / 2) ^ n)"
  proof -
    define A where "A = \<bar>x\<bar> * (inverse (fact n) * (x\<^sup>2 / 2) ^ n)"
    have "0 \<le> A" by (simp add: A_def)
    then have "A \<le> A * real (2 * n + 1)" by (simp add: mult_le_cancel_left1)
    then have "A / real (2 * n + 1) \<le> A" by (simp add: pos_divide_le_eq)
    then show ?thesis by (simp add: A_def)
  qed
  finally show "norm (norm_cdf_series x n) \<le> \<bar>x\<bar> * (inverse (fact n) * (x\<^sup>2 / 2) ^ n)" .
qed

lemma norm_cdf_series_minus: "norm_cdf_series (- x) n = - norm_cdf_series x n"
  by (simp add: norm_cdf_series_def)

lemma norm_cdf_minus: "norm_cdf (- x) = 1 - norm_cdf x"
  by (simp add: norm_cdf_def norm_cdf_series_minus suminf_minus [OF summable_norm_cdf_series])

lemma norm_cdf_zero: "norm_cdf 0 = 1 / 2"
  by (simp add: norm_cdf_def norm_cdf_series_def)

lemma norm_pdf_pos: "0 < norm_pdf x"
  by (simp add: norm_pdf_def)

lemma sqrt_2pi_bounds: "1 \<le> sqrt (2 * pi)" "sqrt (2 * pi) \<le> 3"
proof -
  have "1 \<le> 2 * pi" using pi_ge_two by simp
  then show "1 \<le> sqrt (2 * pi)" by simp
  have "2 * pi \<le> 9" using pi_less_4 by simp
  then have "sqrt (2 * pi) \<le> sqrt 9" by (rule real_sqrt_le_mono)
  also have "sqrt 9 = 3" using real_sqrt_abs [of 3] by simp
  finally show "sqrt (2 * pi) \<le> 3" .
qed

lemma norm_pdf_le_one: "norm_pdf x \<le> 1"
proof -
  have "exp (- (x ^ 2) / 2) \<le> 1" by simp
  also have "\<dots> \<le> sqrt (2 * pi)" by (rule sqrt_2pi_bounds)
  finally show ?thesis by (simp add: norm_pdf_def)
qed

lemma norm_pdf_lower:
  assumes "x ^ 2 \<le> 2"
  shows "(1 - x ^ 2 / 2) / 3 \<le> norm_pdf x"
proof -
  have a: "0 \<le> 1 - x ^ 2 / 2" using assms by simp
  have "1 - x ^ 2 / 2 \<le> exp (- (x ^ 2) / 2)"
    using exp_ge_add_one_self [of "- (x ^ 2) / 2"] by simp
  then have "(1 - x ^ 2 / 2) / 3 \<le> exp (- (x ^ 2) / 2) / 3"
    by (simp add: divide_right_mono)
  also have "\<dots> \<le> exp (- (x ^ 2) / 2) / sqrt (2 * pi)"
    using sqrt_2pi_bounds by (intro divide_left_mono) simp_all
  finally show ?thesis by (simp add: norm_pdf_def)
qed

text \<open>
  \<open>norm_cdf\<close> is the distribution function of the density \<open>norm_pdf\<close>: it is the
  antiderivative of the density with the value \<open>1/2\<close> at \<open>0\<close>.
\<close>

lemma cdf_coeff_term:
  "cdf_coeff k * x ^ k = (if even k then 0 else norm_cdf_series x ((k - 1) div 2))"
proof (cases "even k")
  case True
  then show ?thesis by (simp add: cdf_coeff_def)
next
  case False
  then obtain n where k: "k = 2 * n + 1" by (auto elim: oddE)
  show ?thesis unfolding k by (simp add: cdf_coeff_def norm_cdf_series_def)
qed

lemma cdf_coeff_sums: "(\<lambda>k. cdf_coeff k * x ^ k) sums (\<Sum>n. norm_cdf_series x n)"
  unfolding cdf_coeff_term
  by (rule sums_if' [OF summable_sums [OF summable_norm_cdf_series]])

lemma diffs_cdf_coeff_term:
  "diffs cdf_coeff k * x ^ k
     = (if even k then inverse (fact (k div 2)) * (- (x ^ 2) / 2) ^ (k div 2) else 0)"
proof (cases "even k")
  case False
  then show ?thesis by (simp add: diffs_def cdf_coeff_def)
next
  case True
  then obtain n where k: "k = 2 * n" by (auto elim: evenE)
  have "diffs cdf_coeff (2 * n) = (- 1) ^ n / (2 ^ n * fact n)"
    by (simp add: diffs_def cdf_coeff_def)
  moreover have "x ^ (2 * n) = (x ^ 2) ^ n" by (simp add: power_mult)
  ultimately show ?thesis
    unfolding k
    by (simp add: power_divide power_minus [of "x ^ 2 / 2"] field_simps del: power_Suc)
qed

lemma diffs_cdf_coeff_sums: "(\<lambda>k. diffs cdf_coeff k * x ^ k) sums exp (- (x ^ 2) / 2)"
proof -
  have e: "(\<lambda>n. inverse (fact n) * (- (x ^ 2) / 2) ^ n) sums exp (- (x ^ 2) / 2)"
    using exp_converges [of "- (x ^ 2) / 2"] by (simp add: field_simps)
  have z: "(\<lambda>n::nat. 0::real) sums 0" by simp
  from sums_if [OF z e]
  show ?thesis unfolding diffs_cdf_coeff_term by simp
qed

lemma DERIV_norm_cdf: "DERIV norm_cdf x :> norm_pdf x"
proof -
  have sm: "summable (\<lambda>k. cdf_coeff k * (\<bar>x\<bar> + 1) ^ k)"
    using cdf_coeff_sums [of "\<bar>x\<bar> + 1"] by (rule sums_summable)
  have "DERIV (\<lambda>x. \<Sum>k. cdf_coeff k * x ^ k) x :> (\<Sum>k. diffs cdf_coeff k * x ^ k)"
    by (rule termdiffs_strong [OF sm]) simp
  moreover have "(\<Sum>k. diffs cdf_coeff k * x ^ k) = exp (- (x ^ 2) / 2)"
    using diffs_cdf_coeff_sums [of x] by (rule sums_unique [symmetric])
  moreover have "(\<lambda>x. \<Sum>k. cdf_coeff k * x ^ k) = (\<lambda>x. \<Sum>n. norm_cdf_series x n)"
    using cdf_coeff_sums by (auto simp: sums_iff)
  ultimately have "DERIV (\<lambda>x. \<Sum>n. norm_cdf_series x n) x :> exp (- (x ^ 2) / 2)"
    by simp
  then have "DERIV (\<lambda>x. (\<Sum>n. norm_cdf_series x n) / sqrt (2 * pi)) x
               :> exp (- (x ^ 2) / 2) / sqrt (2 * pi)"
    by (rule DERIV_cdivide)
  from DERIV_add [OF DERIV_const [of "1 / 2"] this]
  have "DERIV (\<lambda>x. 1 / 2 + (\<Sum>n. norm_cdf_series x n) / sqrt (2 * pi)) x
               :> exp (- (x ^ 2) / 2) / sqrt (2 * pi)"
    by simp
  then show ?thesis
    by (simp add: norm_cdf_def [abs_def] norm_pdf_def)
qed

subsection \<open>The source computes the formulas\<close>

lemma bs_d1_nonzero_sigma:
  assumes "0 < S" "0 < K" "0 < T" "sigma \<noteq> 0"
  shows "bs_d1 \<lparr>bs_S = S, bs_K = K, bs_T = T, bs_r = r, bs_sigma = sigma\<rparr> =
           Inr (d1_formula S K T r sigma)"
  using assms by (simp add: bs_d1_def float_div_def math_log_def not_le d1_formula_def)

lemma price_valid:
  assumes "0 < S" "0 < K" "0 < T" "sigma \<noteq> 0"
    and "lower option_type = ''call'' \<or> lower option_type = ''put''"
  shows "price \<lparr>bs_S = S, bs_K = K, bs_T = T, bs_r = r, bs_sigma = sigma\<rparr> option_type
           = Inr (price_formula S K T r option_type sigma)"
proof -
  have put: "''put'' \<noteq> ''call''" by simp
  show ?thesis
    using assms(5) put bs_d1_nonzero_sigma [OF assms(1-4), of r] assms(3)
    by (auto simp add: price_def price_formula_def call_price_def put_price_def bs_d2_def
          d2_formula_def)
qed

lemma vega_valid:
  assumes "0 < S" "0 < K" "0 < T" "sigma \<noteq> 0"
  shows "vega (Greeks_init S K T r sigma option_type) = Inr (vega_formula S K T r sigma / 100)"
  using assms
  by (simp add: vega_def Greeks_init_def greeks_d1_def float_div_def math_log_def
        divide_le_0_iff vega_formula_def d1_formula_def Let_def)

lemma newton_raphson_step:
  assumes "0 < S" "0 < K" "0 < T" "sigma \<noteq> 0"
    and "lower option_type = ''call'' \<or> lower option_type = ''put''"
  shows "newton_raphson market_price S K T r option_type tolerance (Suc n) sigma =
          (if nr_converged market_price S K T r option_type tolerance sigma then Inr (Some sigma)
           else if nr_vega_vanishes S K T r sigma then Inr None
           else newton_raphson market_price S K T r option_type tolerance n
                  (nr_next market_price S K T r option_type sigma))"
  by (simp add: price_valid [OF assms] vega_valid [OF assms(1-4)] nr_converged_def
        nr_vega_vanishes_def nr_next_def Let_def)

lemma nr_next_bounds:
  "0.001 \<le> nr_next market_price S K T r option_type sigma"
  "nr_next market_price S K T r option_type sigma \<le> 5.0"
  unfolding nr_next_def by simp_all

lemma nr_next_nonzero: "nr_next market_price S K T r option_type sigma \<noteq> 0"
  using nr_next_bounds(1) [of market_price S K T r option_type sigma] by simp

lemma nr_iterate_shift:
  "nr_iterate market_price S K T r option_type
      (nr_next market_price S K T r option_type sigma) n
   = nr_iterate market_price S K T r option_type sigma (Suc n)"
  by (induction n) simp_all

text \<open>As long as no iterate converges or loses its vega, the loop just walks the sequence.\<close>

lemma newton_raphson_prefix:
  assumes "0 < S" "0 < K" "0 < T"
    and "lower option_type = ''call'' \<or> lower option_type = ''put''"
  shows "sigma \<noteq> 0 \<Longrightarrow>
     (\<forall>j<k. \<not> nr_converged market_price S K T r option_type tolerance
                 (nr_iterate market_price S K T r option_type sigma j)
           \<and> \<not> nr_vega_vanishes S K T r
                 (nr_iterate market_price S K T r option_type sigma j)) \<Longrightarrow>
     newton_raphson market_price S K T r option_type tolerance (k + n) sigma
       = newton_raphson market_price S K T r option_type tolerance n
           (nr_iterate market_price S K T r option_type sigma k)"
proof (induction k arbitrary: sigma)
  case 0
  show ?case by simp
next
  case (Suc k)
  from Suc.prems(2) have first:
    "\<not> nr_converged market_price S K T r option_type tolerance sigma"
    "\<not> nr_vega_vanishes S K T r sigma"
    by (auto dest: spec [of _ 0])
  have rest: "\<forall>j<k. \<not> nr_converged market_price S K T r option_type tolerance
                 (nr_iterate market_price S K T r option_type
                    (nr_next market_price S K T r option_type sigma) j)
           \<and> \<not> nr_vega_vanishes S K T r
                 (nr_iterate market_price S K T r option_type
                    (nr_next market_price S K T r option_type sigma) j)"
    using Suc.prems(2) unfolding nr_iterate_shift by auto
  have "newton_raphson market_price S K T r option_type tolerance (Suc k + n) sigma
        = newton_raphson market_price S K T r option_type tolerance (k + n)
            (nr_next market_price S K T r option_type sigma)"
    using first Suc.prems(1)
    by (simp add: newton_raphson_step [OF assms(1-3) _ assms(4)] del: newton_raphson.simps)
  also have "\<dots> = newton_raphson market_price S K T r option_type tolerance n
           (nr_iterate market_price S K T r option_type
              (nr_next market_price S K T r option_type sigma) k)"
    by (rule Suc.IH [OF nr_next_nonzero rest])
  finally show ?case unfolding nr_iterate_shift .
qed

lemma nr_iterate_nonzero:
  "sigma \<noteq> 0 \<Longrightarrow> nr_iterate market_price S K T r option_type sigma k \<noteq> 0"
  by (cases k) (simp_all add: nr_next_nonzero)

lemma newton_raphson_outcomes:
  assumes "0 < S" "0 < K" "0 < T" "sigma \<noteq> 0"
    and "lower option_type = ''call'' \<or> lower option_type = ''put''"
    and quiet: "\<forall>j<k. \<not> nr_converged market_price S K T r option_type tolerance
                 (nr_iterate market_price S K T r option_type sigma j)
           \<and> \<not> nr_vega_vanishes S K T r
                 (nr_iterate market_price S K T r option_type sigma j)"
  shows "k < N \<Longrightarrow> nr_converged market_price S K T r option_type tolerance
                    (nr_iterate market_price S K T r option_type sigma k) \<Longrightarrow>
           newton_raphson market_price S K T r option_type tolerance N sigma
             = Inr (Some (nr_iterate market_price S K T r option_type sigma k))"
    and "k < N \<Longrightarrow> \<not> nr_converged market_price S K T r option_type tolerance
                    (nr_iterate market_price S K T r option_type sigma k) \<Longrightarrow>
           nr_vega_vanishes S K T r (nr_iterate market_price S K T r option_type sigma k) \<Longrightarrow>
           newton_raphson market_price S K T r option_type tolerance N sigma = Inr None"
    and "k = N \<Longrightarrow>
           newton_raphson market_price S K T r option_type tolerance N sigma = Inr None"
proof -
  note prefix = newton_raphson_prefix [OF assms(1-3) assms(5) assms(4) quiet]
  note nz = nr_iterate_nonzero [OF assms(4), of market_price S K T r option_type k]
  note step = newton_raphson_step [OF assms(1-3) nz assms(5)]
  {
    assume "k < N"
    then obtain n where N: "N = k + Suc n" by (auto simp: less_iff_Suc_add)
    assume "nr_converged market_price S K T r option_type tolerance
                    (nr_iterate market_price S K T r option_type sigma k)"
    then show "newton_raphson market_price S K T r option_type tolerance N sigma
             = Inr (Some (nr_iterate market_price S K T r option_type sigma k))"
      unfolding N prefix step by simp
  }
  {
    assume "k < N"
    then obtain n where N: "N = k + Suc n" by (auto simp: less_iff_Suc_add)
    assume "\<not> nr_converged market_price S K T r option_type tolerance
                    (nr_iterate market_price S K T r option_type sigma k)"
      "nr_vega_vanishes S K T r (nr_iterate market_price S K T r option_type sigma k)"
    then show "newton_raphson market_price S K T r option_type tolerance N sigma = Inr None"
      unfolding N prefix step by simp
  }
  {
    assume "k = N"
    then show "newton_raphson market_price S K T r option_type tolerance N sigma = Inr None"
      using prefix [of 0] by simp
  }
qed

lemma root_search_returns:
  "\<exists>result. root_search brentq market_price S K T r option_type
                initial_guess max_iterations tolerance = Inr result"
  by (simp add: root_search_def split: sum.split)

lemma lower_CALL: "lower ''CALL'' = ''call''" by code_simp

subsection \<open>Monotonicity of the distribution function; prices at the money\<close>

lemma norm_cdf_strict_mono:
  assumes "x < y"
  shows "norm_cdf x < norm_cdf y"
proof (rule DERIV_pos_imp_increasing [OF assms])
  fix z
  show "\<exists>d. DERIV norm_cdf z :> d \<and> 0 < d"
    using DERIV_norm_cdf [of z] norm_pdf_pos [of z] by blast
qed


text \<open>At the money, with a zero rate and \<open>T = 4\<close>: \<open>d1 = sigma\<close>, \<open>d2 = - sigma\<close>.\<close>

lemma atm_call_price:
  assumes "sigma \<noteq> 0"
  shows "price_formula 100 100 4 0 ''call'' sigma = 100 * (2 * norm_cdf sigma - 1)"
proof -
  have s4: "sqrt 4 = (2::real)" using real_sqrt_abs [of 2] by simp
  have d1: "d1_formula 100 100 4 0 sigma = sigma"
    using assms by (simp add: d1_formula_def s4 power2_eq_square)
  have d2: "d2_formula 100 100 4 0 sigma = - sigma"
    by (simp add: d2_formula_def d1 s4)
  show ?thesis
    by (simp add: price_formula_def lower_call d1 d2 norm_cdf_minus)
qed

lemma atm_call_price_pos:
  assumes "0 < sigma"
  shows "0 < price_formula 100 100 4 0 ''call'' sigma"
proof -
  have "norm_cdf 0 < norm_cdf sigma" using assms by (rule norm_cdf_strict_mono)
  then show ?thesis using assms by (simp add: atm_call_price norm_cdf_zero)
qed


lemma abs_plus_one_far: "\<not> \<bar>p - (\<bar>p\<bar> + 1)\<bar> < (1 / 10 ^ 6 :: real)"
  by (simp add: abs_if)

subsection \<open>The put branch of the Greeks\<close>

lemma greeks_d1_nonzero_sigma:
  assumes "0 < S" "0 < K" "0 < T" "sigma \<noteq> 0"
  shows "greeks_d1 (Greeks_init S K T r sigma option_type) = Inr (d1_formula S K T r sigma)"
  using assms
  by (simp add: greeks_d1_def Greeks_init_def float_div_def math_log_def not_le d1_formula_def)

lemma greeks_d2_nonzero_sigma:
  assumes "0 < S" "0 < K" "0 < T" "sigma \<noteq> 0"
  shows "greeks_d2 (Greeks_init S K T r sigma option_type) = Inr (d2_formula S K T r sigma)"
  using assms(3) greeks_d1_nonzero_sigma [OF assms, of r option_type]
  by (simp add: greeks_d2_def d2_formula_def) (simp add: Greeks_init_def)

lemma put_greeks_formulas:
  assumes "lower option_type \<noteq> ''call''" "0 < S" "0 < K" "0 < T" "sigma \<noteq> 0"
  shows "delta (Greeks_init S K T r sigma option_type)
           = Inr (norm_cdf (d1_formula S K T r sigma) - 1)"
    and "gamma (Greeks_init S K T r sigma option_type)
           = Inr (norm_pdf (d1_formula S K T r sigma) / (S * sigma * sqrt T))"
    and "theta (Greeks_init S K T r sigma option_type)
           = Inr ((- (S * norm_pdf (d1_formula S K T r sigma) * sigma) / (2 * sqrt T)
                   + r * K * exp (- r * T) * norm_cdf (- d2_formula S K T r sigma)) / 365)"
    and "vega (Greeks_init S K T r sigma option_type)
           = Inr (S * norm_pdf (d1_formula S K T r sigma) * sqrt T / 100)"
    and "rho (Greeks_init S K T r sigma option_type)
           = Inr (- K * T * exp (- r * T) * norm_cdf (- d2_formula S K T r sigma) / 100)"
proof -
  note d1 = greeks_d1_nonzero_sigma [OF assms(2-5), of r option_type]
  note d2 = greeks_d2_nonzero_sigma [OF assms(2-5), of r option_type]
  have f: "gk_T (Greeks_init S K T r sigma option_type) = T"
    "gk_S (Greeks_init S K T r sigma option_type) = S"
    "gk_K (Greeks_init S K T r sigma option_type) = K"
    "gk_r (Greeks_init S K T r sigma option_type) = r"
    "gk_sigma (Greeks_init S K T r sigma option_type) = sigma"
    "gk_option_type (Greeks_init S K T r sigma option_type) = lower option_type"
    by (simp_all add: Greeks_init_def)
  show "delta (Greeks_init S K T r sigma option_type)
           = Inr (norm_cdf (d1_formula S K T r sigma) - 1)"
    using assms(1,4) by (simp add: delta_def d1 f)
  show "gamma (Greeks_init S K T r sigma option_type)
           = Inr (norm_pdf (d1_formula S K T r sigma) / (S * sigma * sqrt T))"
    using assms(4) by (simp add: gamma_def d1 f)
  show "theta (Greeks_init S K T r sigma option_type)
           = Inr ((- (S * norm_pdf (d1_formula S K T r sigma) * sigma) / (2 * sqrt T)
                   + r * K * exp (- r * T) * norm_cdf (- d2_formula S K T r sigma)) / 365)"
    using assms(1,4) by (simp add: theta_def d1 d2 f Let_def)
  show "vega (Greeks_init S K T r sigma option_type)
           = Inr (S * norm_pdf (d1_formula S K T r sigma) * sqrt T / 100)"
    using assms(4) by (simp add: vega_def d1 f Let_def)
  show "rho (Greeks_init S K T r sigma option_type)
           = Inr (- K * T * exp (- r * T) * norm_cdf (- d2_formula S K T r sigma) / 100)"
    using assms(1,4) by (simp add: rho_def d2 f Let_def)
qed

lemma put_greeks_expired:
  assumes "lower option_type \<noteq> ''call''" "T \<le> 0"
  shows "delta (Greeks_init S K T r sigma option_type) = Inr (if S < K then - 1 else 0)"
    and "gamma (Greeks_init S K T r sigma option_type) = Inr 0"
    and "theta (Greeks_init S K T r sigma option_type) = Inr 0"
    and "vega (Greeks_init S K T r sigma option_type) = Inr 0"
    and "rho (Greeks_init S K T r sigma option_type) = Inr 0"
  using assms
  by (simp_all add: delta_def gamma_def theta_def vega_def rho_def Greeks_init_def)

section \<open>The Pricing Engine\<close>

text \<open>
  Claim C1. For every \<open>S\<close>, \<open>K\<close>, \<open>r\<close>, \<open>sigma\<close> and every \<open>T \<le> 0\<close> the pricing
  engine bypasses the Black-Scholes formula: \<open>call_price\<close> returns \<open>max(0, S - K)\<close>,
  \<open>put_price\<close> returns \<open>max(0, K - S)\<close>, and \<open>_d1\<close> and \<open>_d2\<close> both return the
  sentinel \<open>0\<close>. None of the four raises, whatever the other fields are.
\<close>

theorem expired_option_intrinsic_value:
  assumes "T \<le> 0"
  shows "call_price \<lparr>bs_S = S, bs_K = K, bs_T = T, bs_r = r, bs_sigma = sigma\<rparr>
           = Inr (max 0 (S - K))
       \<and> put_price \<lparr>bs_S = S, bs_K = K, bs_T = T, bs_r = r, bs_sigma = sigma\<rparr>
           = Inr (max 0 (K - S))
       \<and> bs_d1 \<lparr>bs_S = S, bs_K = K, bs_T = T, bs_r = r, bs_sigma = sigma\<rparr> = Inr 0
       \<and> bs_d2 \<lparr>bs_S = S, bs_K = K, bs_T = T, bs_r = r, bs_sigma = sigma\<rparr> = Inr 0"
  using assms by (simp add: call_price_def put_price_def bs_d1_def bs_d2_def)

theorem expired_option_intrinsic_value_witness:
  "(0::real) \<le> 0
   \<and> call_price \<lparr>bs_S = 100, bs_K = 95, bs_T = 0, bs_r = 0.05, bs_sigma = 0.2\<rparr> = Inr 5
   \<and> put_price \<lparr>bs_S = 100, bs_K = 95, bs_T = 0, bs_r = 0.05, bs_sigma = 0.2\<rparr> = Inr 0
   \<and> bs_d1 \<lparr>bs_S = 100, bs_K = 95, bs_T = 0, bs_r = 0.05, bs_sigma = 0.2\<rparr> = Inr 0
   \<and> bs_d2 \<lparr>bs_S = 100, bs_K = 95, bs_T = 0, bs_r = 0.05, bs_sigma = 0.2\<rparr> = Inr 0"
  using expired_option_intrinsic_value
          [where T = 0 and S = 100 and K = 95 and r = "0.05" and sigma = "0.2"]
  by simp

text \<open>
  Claim C2. For every \<open>S > 0\<close>, \<open>K > 0\<close>, \<open>T > 0\<close>, \<open>r\<close> and \<open>sigma > 0\<close> the
  pricing engine raises nothing and computes
  \<open>d1 = (ln(S/K) + (r + 0.5 sigma\<^sup>2) T) / (sigma \<surd>T)\<close>, \<open>d2 = d1 - sigma \<surd>T\<close>,
  \<open>call_price = S \<Phi>(d1) - K e\<^sup>-\<^sup>r\<^sup>T \<Phi>(d2)\<close> and
  \<open>put_price = K e\<^sup>-\<^sup>r\<^sup>T \<Phi>(-d2) - S \<Phi>(-d1)\<close>, with \<open>\<Phi>\<close> the standard normal
  distribution function.
\<close>

theorem black_scholes_formulas:
  assumes "0 < S" "0 < K" "0 < T" "0 < sigma"
  shows "let m = \<lparr>bs_S = S, bs_K = K, bs_T = T, bs_r = r, bs_sigma = sigma\<rparr>;
             d1 = (ln (S / K) + (r + 0.5 * sigma ^ 2) * T) / (sigma * sqrt T);
             d2 = d1 - sigma * sqrt T
         in bs_d1 m = Inr d1 \<and> bs_d2 m = Inr d2
          \<and> call_price m = Inr (S * norm_cdf d1 - K * exp (- r * T) * norm_cdf d2)
          \<and> put_price m = Inr (K * exp (- r * T) * norm_cdf (- d2) - S * norm_cdf (- d1))"
  using assms bs_d1_valid [OF assms, of r]
  by (simp add: Let_def call_price_def put_price_def bs_d2_def)

theorem black_scholes_formulas_witness:
  "(0::real) < 100 \<and> (0::real) < 105 \<and> (0::real) < 1 \<and> (0::real) < 0.2
   \<and> (let m = \<lparr>bs_S = 100, bs_K = 105, bs_T = 1, bs_r = 0.05, bs_sigma = 0.2\<rparr>;
           d1 = (ln (100 / 105) + (0.05 + 0.5 * 0.2 ^ 2) * 1) / (0.2 * sqrt 1);
           d2 = d1 - 0.2 * sqrt 1
       in bs_d1 m = Inr d1 \<and> bs_d2 m = Inr d2
        \<and> call_price m = Inr (100 * norm_cdf d1 - 105 * exp (- 0.05 * 1) * norm_cdf d2)
        \<and> put_price m = Inr (105 * exp (- 0.05 * 1) * norm_cdf (- d2) - 100 * norm_cdf (- d1)))"
  using black_scholes_formulas
          [where S = 100 and K = 105 and T = 1 and r = "0.05" and sigma = "0.2"]
  by simp

text \<open>
  Claim C6. \<open>price(option_type)\<close> raises the invalid-option-type error if and only if
  \<open>option_type\<close>, lowered, is neither \<^verbatim>\<open>call\<close> nor \<^verbatim>\<open>put\<close>. For a valid side
  and valid numeric ranges (\<open>S > 0\<close>, \<open>K > 0\<close>, \<open>T \<ge> 0\<close>, and \<open>sigma > 0\<close> when
  \<open>T > 0\<close>) it raises nothing and returns what \<open>call_price\<close>, respectively
  \<open>put_price\<close>, returns. (The other \<^verbatim>\<open>ValueError\<close> of the module, the domain
  error of \<^verbatim>\<open>math.log\<close>, is a different value of \<^typ>\<open>error\<close>; it needs numeric
  fields outside the valid ranges.)
\<close>

theorem price_invalid_option_type:
  "(price m option_type = Inl InvalidOptionType
      \<longleftrightarrow> lower option_type \<noteq> ''call'' \<and> lower option_type \<noteq> ''put'')
   \<and> (0 < bs_S m \<and> 0 < bs_K m \<and> 0 \<le> bs_T m \<and> (0 < bs_T m \<longrightarrow> 0 < bs_sigma m) \<longrightarrow>
        (lower option_type = ''call'' \<longrightarrow>
           price m option_type = call_price m \<and> (\<exists>v. price m option_type = Inr v))
      \<and> (lower option_type = ''put'' \<longrightarrow>
           price m option_type = put_price m \<and> (\<exists>v. price m option_type = Inr v)))"
proof (intro conjI impI)
  show "price m option_type = Inl InvalidOptionType
      \<longleftrightarrow> lower option_type \<noteq> ''call'' \<and> lower option_type \<noteq> ''put''"
    by (simp add: price_def call_price_not_invalid put_price_not_invalid)
next
  assume "lower option_type = ''call''"
  then show "price m option_type = call_price m" by (simp add: price_def)
next
  assume v: "0 < bs_S m \<and> 0 < bs_K m \<and> 0 \<le> bs_T m \<and> (0 < bs_T m \<longrightarrow> 0 < bs_sigma m)"
    and c: "lower option_type = ''call''"
  from v have "bs_T m \<le> 0 \<or> 0 < bs_sigma m" by auto
  with v call_price_returns [of m] c show "\<exists>v. price m option_type = Inr v"
    by (simp add: price_def)
next
  assume "lower option_type = ''put''"
  then show "price m option_type = put_price m" by (simp add: price_def)
next
  assume v: "0 < bs_S m \<and> 0 < bs_K m \<and> 0 \<le> bs_T m \<and> (0 < bs_T m \<longrightarrow> 0 < bs_sigma m)"
    and c: "lower option_type = ''put''"
  from v have "bs_T m \<le> 0 \<or> 0 < bs_sigma m" by auto
  with v put_price_returns [of m] c show "\<exists>v. price m option_type = Inr v"
    by (simp add: price_def)
qed

theorem price_invalid_option_type_witness:
  "(price \<lparr>bs_S = 100, bs_K = 105, bs_T = 1, bs_r = 0.05, bs_sigma = 0.2\<rparr> ''xyz''
      = Inl InvalidOptionType)
   \<and> price \<lparr>bs_S = 100, bs_K = 105, bs_T = 1, bs_r = 0.05, bs_sigma = 0.2\<rparr> ''Call''
      = call_price \<lparr>bs_S = 100, bs_K = 105, bs_T = 1, bs_r = 0.05, bs_sigma = 0.2\<rparr>
   \<and> (\<exists>v. price \<lparr>bs_S = 100, bs_K = 105, bs_T = 1, bs_r = 0.05, bs_sigma = 0.2\<rparr> ''Call''
          = Inr v)
   \<and> price \<lparr>bs_S = 100, bs_K = 105, bs_T = 1, bs_r = 0.05, bs_sigma = 0.2\<rparr> ''put''
      = put_price \<lparr>bs_S = 100, bs_K = 105, bs_T = 1, bs_r = 0.05, bs_sigma = 0.2\<rparr>
   \<and> (\<exists>v. price \<lparr>bs_S = 100, bs_K = 105, bs_T = 1, bs_r = 0.05, bs_sigma = 0.2\<rparr> ''put''
          = Inr v)"
proof -
  define m where "m = \<lparr>bs_S = 100, bs_K = 105, bs_T = 1, bs_r = 0.05, bs_sigma = 0.2\<rparr>"
  have l1: "lower ''xyz'' \<noteq> ''call'' \<and> lower ''xyz'' \<noteq> ''put''" by code_simp
  have l2: "lower ''Call'' = ''call''" by code_simp
  have l3: "lower ''put'' = ''put''" by code_simp
  have v: "0 < bs_S m \<and> 0 < bs_K m \<and> 0 \<le> bs_T m \<and> (0 < bs_T m \<longrightarrow> 0 < bs_sigma m)"
    by (simp add: m_def)
  have "price m ''xyz'' = Inl InvalidOptionType
      \<and> price m ''Call'' = call_price m \<and> (\<exists>v. price m ''Call'' = Inr v)
      \<and> price m ''put'' = put_price m \<and> (\<exists>v. price m ''put'' = Inr v)"
    using price_invalid_option_type [of m "''xyz''"] price_invalid_option_type [of m "''Call''"] price_invalid_option_type [of m "''put''"] l1 l2 l3 v
    by blast
  then show ?thesis unfolding m_def .
qed

text \<open>
  Put-call parity in exact arithmetic: for \<open>S > 0\<close>, \<open>K > 0\<close>, \<open>T > 0\<close> and
  \<open>sigma > 0\<close> both prices are returned and \<open>call_price - put_price\<close> is
  \<open>S - K e\<^sup>-\<^sup>r\<^sup>T\<close>, by the symmetry \<open>\<Phi>(-x) = 1 - \<Phi>(x)\<close>. How far the two sides
  are apart when the source is run on doubles is a matter of rounding, which this
  theory does not represent.
\<close>

lemma put_call_parity_exact:
  assumes "0 < S" "0 < K" "0 < T" "0 < sigma"
  shows "\<exists>c p. call_price \<lparr>bs_S = S, bs_K = K, bs_T = T, bs_r = r, bs_sigma = sigma\<rparr> = Inr c
             \<and> put_price \<lparr>bs_S = S, bs_K = K, bs_T = T, bs_r = r, bs_sigma = sigma\<rparr> = Inr p
             \<and> c - p = S - K * exp (- r * T)"
proof -
  from assms have nz: "sigma \<noteq> 0" by simp
  note d1 = bs_d1_nonzero_sigma [OF assms(1-3) nz, of r]
  have c: "call_price \<lparr>bs_S = S, bs_K = K, bs_T = T, bs_r = r, bs_sigma = sigma\<rparr>
            = Inr (S * norm_cdf (d1_formula S K T r sigma)
                   - K * exp (- r * T) * norm_cdf (d2_formula S K T r sigma))"
    using assms(3) by (simp add: call_price_def bs_d2_def d1 d2_formula_def)
  have p: "put_price \<lparr>bs_S = S, bs_K = K, bs_T = T, bs_r = r, bs_sigma = sigma\<rparr>
            = Inr (K * exp (- r * T) * norm_cdf (- d2_formula S K T r sigma)
                   - S * norm_cdf (- d1_formula S K T r sigma))"
    using assms(3) by (simp add: put_price_def bs_d2_def d1 d2_formula_def)
  have eq: "(S * norm_cdf (d1_formula S K T r sigma)
                   - K * exp (- r * T) * norm_cdf (d2_formula S K T r sigma))
          - (K * exp (- r * T) * norm_cdf (- d2_formula S K T r sigma)
                   - S * norm_cdf (- d1_formula S K T r sigma))
          = S - K * exp (- r * T)"
    unfolding norm_cdf_minus by (simp add: algebra_simps)
  show ?thesis
    unfolding c p using eq by simp
qed

section \<open>The Greeks Engine\<close>

text \<open>
  Claim C5. For every \<open>T \<le> 0\<close> the Greeks engine returns \<open>gamma = 0\<close>,
  \<open>theta = 0\<close>, \<open>vega = 0\<close> and \<open>rho = 0\<close>, and the degenerate delta: for a call
  \<open>1\<close> if \<open>S > K\<close> and \<open>0\<close> otherwise, for a put \<open>-1\<close> if \<open>S < K\<close> and \<open>0\<close>
  otherwise.
\<close>

theorem greeks_at_expiry:
  assumes "T \<le> 0"
  shows "gamma (Greeks_init S K T r sigma option_type) = Inr 0
       \<and> theta (Greeks_init S K T r sigma option_type) = Inr 0
       \<and> vega (Greeks_init S K T r sigma option_type) = Inr 0
       \<and> rho (Greeks_init S K T r sigma option_type) = Inr 0
       \<and> (lower option_type = ''call'' \<longrightarrow>
            delta (Greeks_init S K T r sigma option_type) = Inr (if S > K then 1 else 0))
       \<and> (lower option_type = ''put'' \<longrightarrow>
            delta (Greeks_init S K T r sigma option_type) = Inr (if S < K then - 1 else 0))"
  using assms
  by (simp add: gamma_def theta_def vega_def rho_def delta_def Greeks_init_def)

theorem greeks_at_expiry_witness:
  "(0::real) \<le> 0 \<and> lower ''call'' = ''call'' \<and> lower ''put'' = ''put''
   \<and> gamma (Greeks_init 100 95 0 0.05 0.2 ''call'') = Inr 0
   \<and> theta (Greeks_init 100 95 0 0.05 0.2 ''call'') = Inr 0
   \<and> vega (Greeks_init 100 95 0 0.05 0.2 ''call'') = Inr 0
   \<and> rho (Greeks_init 100 95 0 0.05 0.2 ''call'') = Inr 0
   \<and> delta (Greeks_init 100 95 0 0.05 0.2 ''call'') = Inr 1
   \<and> delta (Greeks_init 100 95 0 0.05 0.2 ''put'') = Inr 0
   \<and> delta (Greeks_init 90 95 0 0.05 0.2 ''put'') = Inr (- 1)"
  using greeks_at_expiry [where T = 0 and S = 100 and K = 95 and r = "0.05" and sigma = "0.2"
              and option_type = "''call''"]
        greeks_at_expiry [where T = 0 and S = 100 and K = 95 and r = "0.05" and sigma = "0.2"
              and option_type = "''put''"]
        greeks_at_expiry [where T = 0 and S = 90 and K = 95 and r = "0.05" and sigma = "0.2"
              and option_type = "''put''"]
        lower_call lower_put
  by simp

text \<open>
  Claim C10. The Greeks engine never raises the invalid-option-type error. For every
  \<open>option_type\<close> whose lower case is not \<^verbatim>\<open>call\<close> (the string \<^verbatim>\<open>xyz\<close>, say),
  \<open>delta\<close>, \<open>theta\<close> and \<open>rho\<close> compute the put formulas: for \<open>T > 0\<close>
  \<open>delta = \<Phi>(d1) - 1\<close>,
  \<open>theta = (-(S \<phi>(d1) sigma) / (2 \<surd>T) + r K e\<^sup>-\<^sup>r\<^sup>T \<Phi>(-d2)) / 365\<close> and
  \<open>rho = -K T e\<^sup>-\<^sup>r\<^sup>T \<Phi>(-d2) / 100\<close>; for \<open>T \<le> 0\<close> \<open>delta\<close> is \<open>-1\<close> if
  \<open>S < K\<close> and \<open>0\<close> otherwise, \<open>theta = rho = 0\<close>. They are the values the
  engine computes for \<^verbatim>\<open>put\<close>, and \<open>all_greeks\<close> returns the dictionary of the
  five put values.
\<close>

theorem greeks_accept_any_option_type:
  "delta g \<noteq> Inl InvalidOptionType \<and> gamma g \<noteq> Inl InvalidOptionType
   \<and> theta g \<noteq> Inl InvalidOptionType \<and> vega g \<noteq> Inl InvalidOptionType
   \<and> rho g \<noteq> Inl InvalidOptionType \<and> all_greeks g \<noteq> Inl InvalidOptionType
   \<and> (lower option_type \<noteq> ''call'' \<longrightarrow>
        delta (Greeks_init S K T r sigma option_type) = delta (Greeks_init S K T r sigma ''put'')
      \<and> theta (Greeks_init S K T r sigma option_type) = theta (Greeks_init S K T r sigma ''put'')
      \<and> rho (Greeks_init S K T r sigma option_type) = rho (Greeks_init S K T r sigma ''put'')
      \<and> (0 < S \<and> 0 < K \<and> (T \<le> 0 \<or> 0 < sigma) \<longrightarrow>
           (\<exists>d ga t v rh. all_greeks (Greeks_init S K T r sigma option_type) =
              Inr [(''delta'', d), (''gamma'', ga), (''theta'', t), (''vega'', v), (''rho'', rh)]))
      \<and> (0 < S \<and> 0 < K \<and> 0 < T \<and> sigma \<noteq> 0 \<longrightarrow>
           delta (Greeks_init S K T r sigma option_type)
             = Inr (norm_cdf (d1_formula S K T r sigma) - 1)
         \<and> theta (Greeks_init S K T r sigma option_type)
             = Inr ((- (S * norm_pdf (d1_formula S K T r sigma) * sigma) / (2 * sqrt T)
                     + r * K * exp (- r * T) * norm_cdf (- d2_formula S K T r sigma)) / 365)
         \<and> rho (Greeks_init S K T r sigma option_type)
             = Inr (- K * T * exp (- r * T) * norm_cdf (- d2_formula S K T r sigma) / 100)
         \<and> all_greeks (Greeks_init S K T r sigma option_type)
             = Inr [(''delta'', norm_cdf (d1_formula S K T r sigma) - 1),
                    (''gamma'', norm_pdf (d1_formula S K T r sigma) / (S * sigma * sqrt T)),
                    (''theta'',
                       (- (S * norm_pdf (d1_formula S K T r sigma) * sigma) / (2 * sqrt T)
                        + r * K * exp (- r * T) * norm_cdf (- d2_formula S K T r sigma)) / 365),
                    (''vega'', S * norm_pdf (d1_formula S K T r sigma) * sqrt T / 100),
                    (''rho'',
                       - K * T * exp (- r * T) * norm_cdf (- d2_formula S K T r sigma) / 100)])
      \<and> (T \<le> 0 \<longrightarrow>
           delta (Greeks_init S K T r sigma option_type) = Inr (if S < K then - 1 else 0)
         \<and> theta (Greeks_init S K T r sigma option_type) = Inr 0
         \<and> rho (Greeks_init S K T r sigma option_type) = Inr 0
         \<and> all_greeks (Greeks_init S K T r sigma option_type)
             = Inr [(''delta'', if S < K then - 1 else 0), (''gamma'', 0), (''theta'', 0),
                    (''vega'', 0), (''rho'', 0)]))"
proof -
  have put: "lower ''put'' \<noteq> ''call''" by code_simp
  have never: "delta g \<noteq> Inl InvalidOptionType \<and> gamma g \<noteq> Inl InvalidOptionType
   \<and> theta g \<noteq> Inl InvalidOptionType \<and> vega g \<noteq> Inl InvalidOptionType
   \<and> rho g \<noteq> Inl InvalidOptionType \<and> all_greeks g \<noteq> Inl InvalidOptionType"
    by (simp add: delta_not_invalid gamma_not_invalid theta_not_invalid vega_not_invalid
      rho_not_invalid all_greeks_not_invalid)
  have full: "\<exists>d ga t v rh. all_greeks (Greeks_init S K T r sigma option_type) =
              Inr [(''delta'', d), (''gamma'', ga), (''theta'', t), (''vega'', v), (''rho'', rh)]"
    if "0 < S \<and> 0 < K \<and> (T \<le> 0 \<or> 0 < sigma)"
    using that all_greeks_returns [of "Greeks_init S K T r sigma option_type"]
    by (simp add: Greeks_init_def)
  have same: "delta (Greeks_init S K T r sigma option_type) = delta (Greeks_init S K T r sigma ''put'')
      \<and> theta (Greeks_init S K T r sigma option_type) = theta (Greeks_init S K T r sigma ''put'')
      \<and> rho (Greeks_init S K T r sigma option_type) = rho (Greeks_init S K T r sigma ''put'')"
    if "lower option_type \<noteq> ''call''"
    using that put
    by (simp add: delta_def theta_def rho_def Greeks_init_def greeks_d1_def greeks_d2_def)
  have live: "delta (Greeks_init S K T r sigma option_type)
             = Inr (norm_cdf (d1_formula S K T r sigma) - 1)
         \<and> theta (Greeks_init S K T r sigma option_type)
             = Inr ((- (S * norm_pdf (d1_formula S K T r sigma) * sigma) / (2 * sqrt T)
                     + r * K * exp (- r * T) * norm_cdf (- d2_formula S K T r sigma)) / 365)
         \<and> rho (Greeks_init S K T r sigma option_type)
             = Inr (- K * T * exp (- r * T) * norm_cdf (- d2_formula S K T r sigma) / 100)
         \<and> all_greeks (Greeks_init S K T r sigma option_type)
             = Inr [(''delta'', norm_cdf (d1_formula S K T r sigma) - 1),
                    (''gamma'', norm_pdf (d1_formula S K T r sigma) / (S * sigma * sqrt T)),
                    (''theta'',
                       (- (S * norm_pdf (d1_formula S K T r sigma) * sigma) / (2 * sqrt T)
                        + r * K * exp (- r * T) * norm_cdf (- d2_formula S K T r sigma)) / 365),
                    (''vega'', S * norm_pdf (d1_formula S K T r sigma) * sqrt T / 100),
                    (''rho'',
                       - K * T * exp (- r * T) * norm_cdf (- d2_formula S K T r sigma) / 100)]"
    if l: "lower option_type \<noteq> ''call''" and v: "0 < S \<and> 0 < K \<and> 0 < T \<and> sigma \<noteq> 0"
  proof -
    from v have a: "0 < S" "0 < K" "0 < T" "sigma \<noteq> 0" by simp_all
    note p = put_greeks_formulas [OF l a, of r]
    show ?thesis unfolding all_greeks_def p by simp
  qed
  have dead: "delta (Greeks_init S K T r sigma option_type) = Inr (if S < K then - 1 else 0)
         \<and> theta (Greeks_init S K T r sigma option_type) = Inr 0
         \<and> rho (Greeks_init S K T r sigma option_type) = Inr 0
         \<and> all_greeks (Greeks_init S K T r sigma option_type)
             = Inr [(''delta'', if S < K then - 1 else 0), (''gamma'', 0), (''theta'', 0),
                    (''vega'', 0), (''rho'', 0)]"
    if l: "lower option_type \<noteq> ''call''" and t: "T \<le> 0"
  proof -
    note p = put_greeks_expired [OF l t, of S K r sigma]
    show ?thesis unfolding all_greeks_def p by simp
  qed
  from never full same live dead show ?thesis by blast
qed

theorem greeks_accept_any_option_type_witness:
  "lower ''xyz'' \<noteq> ''call''
   \<and> delta (Greeks_init 100 105 1 0.05 0.2 ''xyz'') = delta (Greeks_init 100 105 1 0.05 0.2 ''put'')
   \<and> delta (Greeks_init 100 105 1 0.05 0.2 ''xyz'')
       = Inr (norm_cdf (d1_formula 100 105 1 0.05 0.2) - 1)
   \<and> theta (Greeks_init 100 105 1 0.05 0.2 ''xyz'')
       = Inr ((- (100 * norm_pdf (d1_formula 100 105 1 0.05 0.2) * 0.2) / (2 * sqrt 1)
               + 0.05 * 105 * exp (- 0.05 * 1) * norm_cdf (- d2_formula 100 105 1 0.05 0.2))
              / 365)
   \<and> rho (Greeks_init 100 105 1 0.05 0.2 ''xyz'')
       = Inr (- 105 * 1 * exp (- 0.05 * 1) * norm_cdf (- d2_formula 100 105 1 0.05 0.2) / 100)
   \<and> (\<exists>d ga t v rh. all_greeks (Greeks_init 100 105 1 0.05 0.2 ''xyz'') =
        Inr [(''delta'', d), (''gamma'', ga), (''theta'', t), (''vega'', v), (''rho'', rh)])
   \<and> all_greeks (Greeks_init 100 105 0 0.05 0.2 ''xyz'')
       = Inr [(''delta'', - 1), (''gamma'', 0), (''theta'', 0), (''vega'', 0), (''rho'', 0)]"
proof -
  have l: "lower ''xyz'' \<noteq> ''call''" by code_simp
  have v: "(0::real) < 100 \<and> (0::real) < 105 \<and> (0::real) < 1 \<and> (0.2::real) \<noteq> 0" by simp
  have w: "(0::real) < 100 \<and> (0::real) < 105 \<and> ((1::real) \<le> 0 \<or> (0::real) < 0.2)" by simp
  have t: "(0::real) \<le> 0" by simp
  note live = greeks_accept_any_option_type
                [where S = 100 and K = 105 and T = 1 and r = "0.05" and sigma = "0.2"
                   and option_type = "''xyz''"]
  note dead = greeks_accept_any_option_type
                [where S = 100 and K = 105 and T = 0 and r = "0.05" and sigma = "0.2"
                   and option_type = "''xyz''"]
  from live l v w have a:
    "delta (Greeks_init 100 105 1 0.05 0.2 ''xyz'') = delta (Greeks_init 100 105 1 0.05 0.2 ''put'')
     \<and> delta (Greeks_init 100 105 1 0.05 0.2 ''xyz'')
         = Inr (norm_cdf (d1_formula 100 105 1 0.05 0.2) - 1)
     \<and> theta (Greeks_init 100 105 1 0.05 0.2 ''xyz'')
         = Inr ((- (100 * norm_pdf (d1_formula 100 105 1 0.05 0.2) * 0.2) / (2 * sqrt 1)
                 + 0.05 * 105 * exp (- 0.05 * 1) * norm_cdf (- d2_formula 100 105 1 0.05 0.2))
                / 365)
     \<and> rho (Greeks_init 100 105 1 0.05 0.2 ''xyz'')
         = Inr (- 105 * 1 * exp (- 0.05 * 1) * norm_cdf (- d2_formula 100 105 1 0.05 0.2) / 100)
     \<and> (\<exists>d ga t v rh. all_greeks (Greeks_init 100 105 1 0.05 0.2 ''xyz'') =
          Inr [(''delta'', d), (''gamma'', ga), (''theta'', t), (''vega'', v), (''rho'', rh)])"
    by blast
  from dead l t have
    "all_greeks (Greeks_init 100 105 0 0.05 0.2 ''xyz'')
       = Inr [(''delta'', if (100::real) < 105 then - 1 else 0), (''gamma'', 0), (''theta'', 0),
              (''vega'', 0), (''rho'', 0)]"
    by blast
  then have b: "all_greeks (Greeks_init 100 105 0 0.05 0.2 ''xyz'')
       = Inr [(''delta'', - 1), (''gamma'', 0), (''theta'', 0), (''vega'', 0), (''rho'', 0)]"
    by simp
  from l a b show ?thesis by blast
qed

section \<open>The Volatility Solver\<close>

text \<open>
  What holds of the guards of \<open>calculate_implied_volatility\<close> for every root finder:
  the method never raises; it returns \<^verbatim>\<open>None\<close> without a search when \<open>T \<le> 0\<close> or
  \<open>market_price \<le> 0\<close>, and when \<open>market_price\<close> is below the floor of the strings
  \<^verbatim>\<open>"call"\<close> and \<^verbatim>\<open>"put"\<close> themselves; it returns \<^verbatim>\<open>None\<close> when Brent's method
  raises and the Newton-Raphson loop returns no volatility.
\<close>

lemma implied_volatility_guards:
  "(\<exists>result. calculate_implied_volatility brentq market_price S K T r option_type
                initial_guess max_iterations tolerance = Inr result)
   \<and> (T \<le> 0 \<or> market_price \<le> 0 \<longrightarrow>
        calculate_implied_volatility brentq market_price S K T r option_type
          initial_guess max_iterations tolerance = Inr None)
   \<and> (option_type = ''call'' \<and> market_price < max 0 (S - K) \<longrightarrow>
        calculate_implied_volatility brentq market_price S K T r option_type
          initial_guess max_iterations tolerance = Inr None)
   \<and> (option_type = ''put'' \<and> market_price < max 0 (K - S) \<longrightarrow>
        calculate_implied_volatility brentq market_price S K T r option_type
          initial_guess max_iterations tolerance = Inr None)
   \<and> ((\<exists>e. brentq (objective market_price S K T r option_type) 0.001 5.0
               max_iterations tolerance = Inl e)
        \<and> (\<forall>sigma. newton_raphson market_price S K T r option_type tolerance
                      (nat max_iterations) initial_guess \<noteq> Inr (Some sigma)) \<longrightarrow>
        calculate_implied_volatility brentq market_price S K T r option_type
          initial_guess max_iterations tolerance = Inr None)"
proof (intro conjI impI)
  show "\<exists>result. calculate_implied_volatility brentq market_price S K T r option_type
                initial_guess max_iterations tolerance = Inr result"
    using root_search_returns [of brentq market_price S K T r option_type
            initial_guess max_iterations tolerance]
    by (simp add: calculate_implied_volatility_def)
next
  assume "T \<le> 0 \<or> market_price \<le> 0"
  then show "calculate_implied_volatility brentq market_price S K T r option_type
          initial_guess max_iterations tolerance = Inr None"
    by (simp add: calculate_implied_volatility_def)
next
  assume "option_type = ''call'' \<and> market_price < max 0 (S - K)"
  then show "calculate_implied_volatility brentq market_price S K T r option_type
          initial_guess max_iterations tolerance = Inr None"
    by (simp add: calculate_implied_volatility_def intrinsic_value_def)
next
  assume "option_type = ''put'' \<and> market_price < max 0 (K - S)"
  then show "calculate_implied_volatility brentq market_price S K T r option_type
          initial_guess max_iterations tolerance = Inr None"
    by (simp add: calculate_implied_volatility_def intrinsic_value_def)
next
  assume a: "(\<exists>e. brentq (objective market_price S K T r option_type) 0.001 5.0
               max_iterations tolerance = Inl e)
        \<and> (\<forall>sigma. newton_raphson market_price S K T r option_type tolerance
                      (nat max_iterations) initial_guess \<noteq> Inr (Some sigma))"
  then obtain e where e: "brentq (objective market_price S K T r option_type) 0.001 5.0
               max_iterations tolerance = Inl e" by blast
  from a have n: "\<And>sigma. newton_raphson market_price S K T r option_type tolerance
                      (nat max_iterations) initial_guess \<noteq> Inr (Some sigma)" by blast
  have "root_search brentq market_price S K T r option_type
          initial_guess max_iterations tolerance = Inr None"
    using e n by (fastforce simp add: root_search_def split: sum.split)
  then show "calculate_implied_volatility brentq market_price S K T r option_type
          initial_guess max_iterations tolerance = Inr None"
    by (simp add: calculate_implied_volatility_def)
qed


text \<open>
  Claim C4. The Newton-Raphson fallback of \<open>calculate_implied_volatility\<close>, entered
  when the guards have passed and Brent's method raises. With
  \<open>\<sigma>\<^sub>0 = initial_guess\<close> and
  \<open>\<sigma>\<^sub>n\<^sub>+\<^sub>1 = max(0.001, min(\<sigma>\<^sub>n - (price(\<sigma>\<^sub>n) - market_price) / vega(\<sigma>\<^sub>n), 5.0))\<close>,
  where \<open>vega\<close> is the derivative per unit of volatility:
  \<^item> the loop returns \<open>\<sigma>\<^sub>k\<close> for the first \<open>k < max_iterations\<close> with
    \<open>|price(\<sigma>\<^sub>k) - market_price| < tolerance\<close>, if no earlier iterate had a vega below
    \<open>10\<^sup>-\<^sup>1\<^sup>0\<close>;
  \<^item> it returns \<^verbatim>\<open>None\<close> at the first iterate that has not converged and whose
    vega is below \<open>10\<^sup>-\<^sup>1\<^sup>0\<close>;
  \<^item> it returns \<^verbatim>\<open>None\<close> when \<open>max_iterations\<close> iterates have neither converged
    nor lost their vega.
  The three cases are exhaustive. The numeric fields are such that pricing does not
  raise (\<open>S > 0\<close>, \<open>K > 0\<close>, \<open>T > 0\<close>, a nonzero initial guess, a valid side).
\<close>

theorem newton_raphson_fallback:
  assumes "0 < S" "0 < K" "0 < T" "initial_guess \<noteq> 0"
    and "lower option_type = ''call'' \<or> lower option_type = ''put''"
    and "0 < market_price" "\<not> market_price < intrinsic_value option_type S K"
    and "brentq (objective market_price S K T r option_type) 0.001 5.0
           max_iterations tolerance = Inl e"
  shows "(\<forall>k. k < nat max_iterations
            \<and> (\<forall>j<k. \<not> nr_converged market_price S K T r option_type tolerance
                         (nr_iterate market_price S K T r option_type initial_guess j)
                     \<and> \<not> nr_vega_vanishes S K T r
                         (nr_iterate market_price S K T r option_type initial_guess j))
            \<and> nr_converged market_price S K T r option_type tolerance
                 (nr_iterate market_price S K T r option_type initial_guess k)
          \<longrightarrow> calculate_implied_volatility brentq market_price S K T r option_type
                 initial_guess max_iterations tolerance
               = Inr (Some (nr_iterate market_price S K T r option_type initial_guess k)))
       \<and> (\<forall>k. k < nat max_iterations
            \<and> (\<forall>j<k. \<not> nr_converged market_price S K T r option_type tolerance
                         (nr_iterate market_price S K T r option_type initial_guess j)
                     \<and> \<not> nr_vega_vanishes S K T r
                         (nr_iterate market_price S K T r option_type initial_guess j))
            \<and> \<not> nr_converged market_price S K T r option_type tolerance
                 (nr_iterate market_price S K T r option_type initial_guess k)
            \<and> nr_vega_vanishes S K T r
                 (nr_iterate market_price S K T r option_type initial_guess k)
          \<longrightarrow> calculate_implied_volatility brentq market_price S K T r option_type
                 initial_guess max_iterations tolerance = Inr None)
       \<and> ((\<forall>j < nat max_iterations.
               \<not> nr_converged market_price S K T r option_type tolerance
                    (nr_iterate market_price S K T r option_type initial_guess j)
             \<and> \<not> nr_vega_vanishes S K T r
                    (nr_iterate market_price S K T r option_type initial_guess j))
          \<longrightarrow> calculate_implied_volatility brentq market_price S K T r option_type
                 initial_guess max_iterations tolerance = Inr None)
       \<and> nr_iterate market_price S K T r option_type initial_guess 0 = initial_guess
       \<and> (\<forall>n. nr_iterate market_price S K T r option_type initial_guess (Suc n)
               = max 0.001 (min
                   (nr_iterate market_price S K T r option_type initial_guess n
                    - (price_formula S K T r option_type
                         (nr_iterate market_price S K T r option_type initial_guess n)
                       - market_price)
                      / vega_formula S K T r
                          (nr_iterate market_price S K T r option_type initial_guess n))
                   5.0))"
proof -
  have rs: "calculate_implied_volatility brentq market_price S K T r option_type
                 initial_guess max_iterations tolerance
            = (case newton_raphson market_price S K T r option_type tolerance
                      (nat max_iterations) initial_guess of
                 Inr result \<Rightarrow> Inr result | Inl e' \<Rightarrow> Inr None)"
    using assms(3,6,7,8) by (simp add: calculate_implied_volatility_def root_search_def)
  note out = newton_raphson_outcomes [OF assms(1-5)]
  show ?thesis
    unfolding rs
    by (intro conjI allI impI) (auto simp add: out nr_next_def)
qed

theorem newton_raphson_fallback_witness:
  "calculate_implied_volatility raising
      (price_formula 100 100 4 0 ''call'' 0.3) 100 100 4 0 ''call'' 0.3 100 (1 / 10 ^ 6)
     = Inr (Some 0.3)
   \<and> calculate_implied_volatility raising
      (\<bar>price_formula (1 / 10 ^ 11) 1 1 0 ''call'' 0.3\<bar> + 1) (1 / 10 ^ 11) 1 1 0 ''call''
      0.3 100 (1 / 10 ^ 6)
     = Inr None
   \<and> calculate_implied_volatility raising
      (\<bar>price_formula 100 100 1 0 ''put'' 0.3\<bar> + 1) 100 100 1 0 ''put'' 0.3 1 (1 / 10 ^ 6)
     = Inr None"
proof -
  have side: "lower ''call'' = ''call'' \<or> lower ''call'' = ''put''"
    "lower ''put'' = ''call'' \<or> lower ''put'' = ''put''"
    using lower_call lower_put by simp_all
  have first: "calculate_implied_volatility raising
      (price_formula 100 100 4 0 ''call'' 0.3) 100 100 4 0 ''call'' 0.3 100 (1 / 10 ^ 6)
     = Inr (Some 0.3)"
  proof -
    let ?mp = "price_formula 100 100 4 0 ''call'' 0.3"
    have pos: "0 < ?mp" by (rule atm_call_price_pos) simp
    then have floor: "\<not> ?mp < intrinsic_value ''call'' 100 100"
      by (simp add: intrinsic_value_def)
    have conv: "nr_converged ?mp 100 100 4 0 ''call'' (1 / 10 ^ 6) 0.3"
      by (simp add: nr_converged_def)
    have fails: "raising (objective ?mp 100 100 4 0 ''call'') 0.001 5.0 100 (1 / 10 ^ 6)
                   = Inl SolverError"
      by (simp add: raising_def)
    from newton_raphson_fallback [where brentq = raising and S = 100 and K = 100 and T = 4 and r = 0
               and option_type = "''call''" and initial_guess = "0.3"
               and max_iterations = 100 and tolerance = "1 / 10 ^ 6"
               and market_price = ?mp and e = SolverError,
             OF _ _ _ _ side(1) pos floor fails, THEN conjunct1, THEN spec, of 0]
      conv
    show ?thesis by simp
  qed
  have second: "calculate_implied_volatility raising
      (\<bar>price_formula (1 / 10 ^ 11) 1 1 0 ''call'' 0.3\<bar> + 1) (1 / 10 ^ 11) 1 1 0 ''call''
      0.3 100 (1 / 10 ^ 6) = Inr None"
  proof -
    let ?mp = "\<bar>price_formula (1 / 10 ^ 11) 1 1 0 ''call'' 0.3\<bar> + 1"
    have pos: "0 < ?mp" by simp
    then have floor: "\<not> ?mp < intrinsic_value ''call'' (1 / 10 ^ 11) 1"
      by (simp add: intrinsic_value_def)
    have nconv: "\<not> nr_converged ?mp (1 / 10 ^ 11) 1 1 0 ''call'' (1 / 10 ^ 6) 0.3"
      unfolding nr_converged_def by (rule abs_plus_one_far)
    have "vega_formula (1 / 10 ^ 11) 1 1 0 0.3
            = norm_pdf (d1_formula (1 / 10 ^ 11) 1 1 0 0.3) / 10 ^ 11"
      by (simp add: vega_formula_def)
    also have "\<dots> \<le> 1 / 10 ^ 11"
      using norm_pdf_le_one [of "d1_formula (1 / 10 ^ 11) 1 1 0 0.3"]
      by (simp add: divide_right_mono)
    also have "\<dots> < (1 / 10 ^ 10 :: real)" by simp
    finally have flat: "nr_vega_vanishes (1 / 10 ^ 11) 1 1 0 0.3"
      by (simp add: nr_vega_vanishes_def)
    have fails: "raising (objective ?mp (1 / 10 ^ 11) 1 1 0 ''call'') 0.001 5.0 100
                   (1 / 10 ^ 6) = Inl SolverError"
      by (simp add: raising_def)
    from newton_raphson_fallback [where brentq = raising and S = "1 / 10 ^ 11" and K = 1 and T = 1 and r = 0
               and option_type = "''call''" and initial_guess = "0.3"
               and max_iterations = 100 and tolerance = "1 / 10 ^ 6"
               and market_price = ?mp and e = SolverError,
             OF _ _ _ _ side(1) pos floor fails, THEN conjunct2, THEN conjunct1, THEN spec,
             of 0]
      nconv flat
    show ?thesis by simp
  qed
  have third: "calculate_implied_volatility raising
      (\<bar>price_formula 100 100 1 0 ''put'' 0.3\<bar> + 1) 100 100 1 0 ''put'' 0.3 1 (1 / 10 ^ 6)
     = Inr None"
  proof -
    let ?mp = "\<bar>price_formula 100 100 1 0 ''put'' 0.3\<bar> + 1"
    have pos: "0 < ?mp" by simp
    then have floor: "\<not> ?mp < intrinsic_value ''put'' 100 100"
      by (simp add: intrinsic_value_def)
    have nconv: "\<not> nr_converged ?mp 100 100 1 0 ''put'' (1 / 10 ^ 6) 0.3"
      unfolding nr_converged_def by (rule abs_plus_one_far)
    have d1: "d1_formula 100 100 1 0 0.3 = 0.15"
      by (simp add: d1_formula_def power2_eq_square)
    have "(1 / 10 ^ 10 :: real) \<le> 100 * ((1 - 0.15 ^ 2 / 2) / 3)"
      by (simp add: power2_eq_square)
    also have "\<dots> \<le> 100 * norm_pdf 0.15"
      using norm_pdf_lower [of "0.15"] by (simp add: power2_eq_square)
    also have "\<dots> = vega_formula 100 100 1 0 0.3"
      by (simp add: vega_formula_def d1)
    finally have nflat: "\<not> nr_vega_vanishes 100 100 1 0 0.3"
      by (simp add: nr_vega_vanishes_def)
    have fails: "raising (objective ?mp 100 100 1 0 ''put'') 0.001 5.0 1 (1 / 10 ^ 6)
                   = Inl SolverError"
      by (simp add: raising_def)
    from newton_raphson_fallback [where brentq = raising and S = 100 and K = 100 and T = 1 and r = 0
               and option_type = "''put''" and initial_guess = "0.3"
               and max_iterations = 1 and tolerance = "1 / 10 ^ 6"
               and market_price = ?mp and e = SolverError,
             OF _ _ _ _ side(2) pos floor fails, THEN conjunct2, THEN conjunct2,
             THEN conjunct1]
      nconv nflat
    show ?thesis by simp
  qed
  from first second third show ?thesis by blast
qed

text \<open>
  Claim C9. For an \<open>option_type\<close> that is \<^verbatim>\<open>call\<close> only after lowering
  (\<^verbatim>\<open>"Call"\<close>, \<^verbatim>\<open>"CALL"\<close>), the precondition of \<open>calculate_implied_volatility\<close>
  uses the put floor \<open>max(0, K - S)\<close>, while the objective function prices a call.
  For \<open>S > K\<close> (and \<open>T > 0\<close>), a market price between \<open>0\<close> and \<open>S - K\<close> passes
  the precondition and the method enters the root search.
\<close>

theorem mixed_case_call_floor:
  assumes "lower option_type = ''call''" "option_type \<noteq> ''call''"
  shows "intrinsic_value option_type S K = max 0 (K - S)
       \<and> objective market_price S K T r option_type sigma
           = (case call_price \<lparr>bs_S = S, bs_K = K, bs_T = T, bs_r = r, bs_sigma = sigma\<rparr> of
                Inl e \<Rightarrow> Infinity
              | Inr model_price \<Rightarrow> Finite (model_price - market_price))
       \<and> (K < S \<and> 0 < market_price \<and> market_price < S - K \<and> 0 < T \<longrightarrow>
            \<not> market_price < intrinsic_value option_type S K
          \<and> calculate_implied_volatility brentq market_price S K T r option_type
              initial_guess max_iterations tolerance
            = root_search brentq market_price S K T r option_type
                initial_guess max_iterations tolerance)"
  using assms
  by (auto simp add: intrinsic_value_def objective_def price_def
        calculate_implied_volatility_def)

theorem mixed_case_call_floor_witness:
  "lower ''CALL'' = ''call'' \<and> ''CALL'' \<noteq> ''call''
   \<and> intrinsic_value ''CALL'' 100 50 = 0
   \<and> calculate_implied_volatility (\<lambda>f a b maxiter xtol. Inr 0.25) 1 100 50 0.25 0.05 ''CALL''
        0.3 100 (1 / 10 ^ 6)
      = root_search (\<lambda>f a b maxiter xtol. Inr 0.25) 1 100 50 0.25 0.05 ''CALL''
          0.3 100 (1 / 10 ^ 6)
   \<and> calculate_implied_volatility (\<lambda>f a b maxiter xtol. Inr 0.25) 1 100 50 0.25 0.05 ''CALL''
        0.3 100 (1 / 10 ^ 6) = Inr (Some 0.25)"
proof -
  have ne: "''CALL'' \<noteq> ''call''" by simp
  have rs: "root_search (\<lambda>f a b maxiter xtol. Inr 0.25) 1 100 50 0.25 0.05 ''CALL''
          0.3 100 (1 / 10 ^ 6) = Inr (Some 0.25)"
    by (simp add: root_search_def)
  show ?thesis
    using mixed_case_call_floor [OF lower_CALL ne, where S = 100 and K = 50 and market_price = 1 and T = "0.25"
               and r = "0.05" and initial_guess = "0.3" and max_iterations = 100
               and tolerance = "1 / 10 ^ 6" and brentq = "\<lambda>f a b maxiter xtol. Inr 0.25"]
      lower_CALL rs
    by simp
qed

subsection \<open>The call of Brent's method\<close>

text \<open>
  The method hands to \<^verbatim>\<open>brentq\<close> the objective function, the bracket
  \<open>[0.001, 5.0]\<close>, \<^verbatim>\<open>maxiter = max_iterations\<close> and \<^verbatim>\<open>xtol = tolerance\<close>; its
  result depends on the root finder through this one call only, and a root that
  \<^verbatim>\<open>brentq\<close> returns is returned as it is, without a test of the price at that root.
\<close>

lemma primary_search_call:
  assumes "brentq (objective market_price S K T r option_type) 0.001 5.0
             max_iterations tolerance
           = brentq' (objective market_price S K T r option_type) 0.001 5.0
               max_iterations tolerance"
  shows "calculate_implied_volatility brentq market_price S K T r option_type
            initial_guess max_iterations tolerance
         = calculate_implied_volatility brentq' market_price S K T r option_type
            initial_guess max_iterations tolerance"
  using assms by (simp add: calculate_implied_volatility_def root_search_def)

lemma primary_search_root_returned:
  assumes "0 < T" "0 < market_price" "\<not> market_price < intrinsic_value option_type S K"
    and "brentq (objective market_price S K T r option_type) 0.001 5.0
           max_iterations tolerance = Inr implied_vol"
  shows "calculate_implied_volatility brentq market_price S K T r option_type
            initial_guess max_iterations tolerance = Inr (Some implied_vol)"
  using assms by (simp add: calculate_implied_volatility_def root_search_def)




end
